theory Spec2Isabelle
  imports Complex_Main
begin

section \<open>Conventions of the embedding\<close>

text \<open>
  The three simulations (\<^verbatim>\<open>gravity.py\<close>, \<^verbatim>\<open>particle.py\<close>, \<^verbatim>\<open>pendulum.py\<close>) compute
  with Python numbers. Python's \<^verbatim>\<open>float\<close> and the \<^verbatim>\<open>int\<close>s mixed into float
  arithmetic are modelled by \<^typ>\<open>real\<close>: arithmetic is exact, rounding of IEEE doubles is
  not part of the model. The one exception is the press and drag arithmetic of the
  gravity sliders, which is given a second time with every float operation rounded to a
  double (the definitions with the suffix \<open>_fl\<close>), for the property that depends on it.
  Mouse coordinates and the slider geometry are Python \<^verbatim>\<open>int\<close>s and are modelled by
  \<^typ>\<open>int\<close>.

  Instance attributes that are assigned in \<^verbatim>\<open>__init__\<close> only are constants; attributes
  that some method assigns are record fields. A dictionary with a fixed set of keys is a
  record; the key \<^verbatim>\<open>"value"\<close> is the field \<open>val\<close>, and the keys of a particle carry the
  prefix \<open>p_\<close>. Methods of the same name in different classes carry the module's name.

  What a method sends to the MIDI sink is returned as the list of calls it makes to
  \<^verbatim>\<open>send_cc\<close> and \<^verbatim>\<open>send_pitch_bend\<close> of the base class, in order.
\<close>

datatype error = ZeroDivisionError | IndexError

datatype midi_call = Send_cc int real | Send_pitch_bend int

text \<open>Python's \<^verbatim>\<open>int(x)\<close> on a float truncates toward zero.\<close>

definition py_int :: "real \<Rightarrow> int" where
  "py_int x = (if 0 \<le> x then \<lfloor>x\<rfloor> else \<lceil>x\<rceil>)"

text \<open>Python's \<^verbatim>\<open>a / b\<close> raises on a zero divisor.\<close>

definition py_truediv :: "real \<Rightarrow> real \<Rightarrow> error + real" where
  "py_truediv a b = (if b = 0 then Inl ZeroDivisionError else Inr (a / b))"

text \<open>\<^verbatim>\<open>pygame.Rect(x, y, w, h).collidepoint(px, py)\<close>: the right and bottom edges are outside.\<close>

definition collidepoint :: "int \<times> int \<times> int \<times> int \<Rightarrow> int \<Rightarrow> int \<Rightarrow> bool" where
  "collidepoint r px py =
     (case r of (x, y, w, h) \<Rightarrow> x \<le> px \<and> px < x + w \<and> y \<le> py \<and> py < y + h)"

text \<open>
  The pygame events the modules look at. The pointer position is not part of the event:
  the handlers read it with \<^verbatim>\<open>pygame.mouse.get_pos()\<close>, here an argument.
\<close>

datatype event = MOUSEBUTTONDOWN int | MOUSEBUTTONUP int | MOUSEMOTION | OTHER_EVENT


section \<open>The gravity module (\<^verbatim>\<open>gravity.py\<close>)\<close>

record controller =
  cc :: int
  val :: real
  velocity :: real
  name :: string

record gravity_module =
  controllers :: "controller list"
  gravity_strength :: real
  dragging_controller :: "nat option"
  dragging_gravity :: bool
  mouse_offset :: real

definition controller_width :: int where "controller_width = 80"
definition controller_height :: int where "controller_height = 300"
definition controller_spacing :: int where "controller_spacing = 150"
definition controller_start_x :: int where "controller_start_x = 100"
definition controller_y :: int where "controller_y = 200"
definition gravity_slider_x :: int where "gravity_slider_x = 600"
definition gravity_slider_y :: int where "gravity_slider_y = 150"
definition gravity_slider_height :: int where "gravity_slider_height = 200"
definition gravity_slider_width :: int where "gravity_slider_width = 30"

text \<open>\<^verbatim>\<open>GravityModule.__init__\<close>.\<close>

definition gravity_init :: gravity_module where
  "gravity_init =
     \<lparr>controllers =
        [\<lparr>cc = 74, val = 64, velocity = 0, name = ''Controller 1''\<rparr>,
         \<lparr>cc = 75, val = 64, velocity = 0, name = ''Controller 2''\<rparr>,
         \<lparr>cc = 76, val = 64, velocity = 0, name = ''Controller 3''\<rparr>],
      gravity_strength = 0.5,
      dragging_controller = None,
      dragging_gravity = False,
      mouse_offset = 0\<rparr>"

text \<open>\<^verbatim>\<open>GravityModule.get_gravity_force\<close>, as a function of \<^verbatim>\<open>self.gravity_strength\<close>.\<close>

definition get_gravity_force :: "real \<Rightarrow> real" where
  "get_gravity_force g = (if g = 0 then 0 else g * g * 0.8)"

text \<open>
  The body of the \<^verbatim>\<open>for controller in self.controllers\<close> loop of
  \<^verbatim>\<open>GravityModule.update\<close>: the controller after the pass and the calls to \<^verbatim>\<open>send_cc\<close>.
\<close>

definition update_controller :: "real \<Rightarrow> controller \<Rightarrow> controller \<times> midi_call list" where
  "update_controller gravity_force c =
     (let center = 64;
          distance_from_center = val c - center
      in if \<bar>distance_from_center\<bar> > 0.1 then
           (let gravity_acceleration = - distance_from_center * gravity_force * 0.1;
                v1 = velocity c + gravity_acceleration;
                v2 = v1 * 0.98;
                x1 = val c + v2;
                x2 = max 0 (min 127 x1)
            in (c\<lparr>velocity := v2, val := x2\<rparr>, [Send_cc (cc c) x2]))
         else if gravity_force > 0 then (c\<lparr>val := center, velocity := 0\<rparr>, [])
         else (c, []))"

text \<open>\<^verbatim>\<open>GravityModule.update\<close>: one tick. No controller is skipped.\<close>

definition gravity_update :: "gravity_module \<Rightarrow> gravity_module \<times> midi_call list" where
  "gravity_update m =
     (let gravity_force = get_gravity_force (gravity_strength m);
          rs = map (update_controller gravity_force) (controllers m)
      in (m\<lparr>controllers := map fst rs\<rparr>, concat (map snd rs)))"

text \<open>
  What one tick does to one controller when the gravity strength is \<open>g\<close>: the controller
  component of the loop body. Iterating it follows one channel through the ticks.
\<close>

definition gravity_tick :: "real \<Rightarrow> controller \<Rightarrow> controller" where
  "gravity_tick g c = fst (update_controller (get_gravity_force g) c)"

text \<open>
  The press loop of \<^verbatim>\<open>handle_mouse_events\<close>: \<^verbatim>\<open>enumerate\<close> with \<^verbatim>\<open>break\<close> at the first
  slider whose rectangle holds the pointer. The result is the index grabbed and the
  offset of the pointer from the handle.
\<close>

fun press_controllers :: "int \<Rightarrow> int \<Rightarrow> nat \<Rightarrow> controller list \<Rightarrow> (nat \<times> real) option" where
  "press_controllers mouse_x mouse_y i [] = None"
| "press_controllers mouse_x mouse_y i (c # cs) =
     (let slider_x = controller_start_x + int i * controller_spacing
      in if collidepoint (slider_x, controller_y, controller_width, controller_height)
              mouse_x mouse_y
         then (let handle_y = real_of_int controller_y + real_of_int controller_height
                              - (val c / 127) * real_of_int controller_height
               in Some (i, real_of_int mouse_y - handle_y))
         else press_controllers mouse_x mouse_y (Suc i) cs)"

text \<open>
  \<^verbatim>\<open>GravityModule.handle_mouse_events\<close>. \<^verbatim>\<open>self.controllers[self.dragging_controller]\<close>
  raises \<^verbatim>\<open>IndexError\<close> out of range.
\<close>

definition gravity_handle_mouse_events ::
    "gravity_module \<Rightarrow> event \<Rightarrow> int \<times> int \<Rightarrow> error + gravity_module \<times> midi_call list" where
  "gravity_handle_mouse_events m ev pos =
     (case pos of (mouse_x, mouse_y) \<Rightarrow>
      (case ev of
         MOUSEBUTTONDOWN button \<Rightarrow>
           if button = 1 then
             (let m1 = (case press_controllers mouse_x mouse_y 0 (controllers m) of
                          None \<Rightarrow> m
                        | Some (i, off) \<Rightarrow> m\<lparr>dragging_controller := Some i, mouse_offset := off\<rparr>);
                  m2 = (if collidepoint (gravity_slider_x, gravity_slider_y,
                                         gravity_slider_width, gravity_slider_height)
                             mouse_x mouse_y
                        then (let handle_y = real_of_int gravity_slider_y
                                             + real_of_int gravity_slider_height
                                             - gravity_strength m1 * real_of_int gravity_slider_height
                              in m1\<lparr>dragging_gravity := True,
                                    mouse_offset := real_of_int mouse_y - handle_y\<rparr>)
                        else m1)
              in Inr (m2, []))
           else Inr (m, [])
       | MOUSEBUTTONUP button \<Rightarrow>
           if button = 1
           then Inr (m\<lparr>dragging_controller := None, dragging_gravity := False\<rparr>, [])
           else Inr (m, [])
       | MOUSEMOTION \<Rightarrow>
           (case dragging_controller m of
              Some i \<Rightarrow>
                if i < length (controllers m) then
                  (let c = controllers m ! i;
                       relative_y = real_of_int mouse_y - mouse_offset m - real_of_int controller_y;
                       normalized = 1 - relative_y / real_of_int controller_height;
                       normalized = max 0 (min 1 normalized);
                       c' = c\<lparr>val := normalized * 127, velocity := 0\<rparr>
                   in Inr (m\<lparr>controllers := (controllers m)[i := c']\<rparr>,
                           [Send_cc (cc c') (val c')]))
                else Inl IndexError
            | None \<Rightarrow>
                if dragging_gravity m then
                  (let relative_y = real_of_int mouse_y - mouse_offset m
                                    - real_of_int gravity_slider_y;
                       normalized = 1 - relative_y / real_of_int gravity_slider_height
                   in Inr (m\<lparr>gravity_strength := max 0 (min 1 normalized)\<rparr>, []))
                else Inr (m, []))
       | OTHER_EVENT \<Rightarrow> Inr (m, [])))"


subsection \<open>The slider handlers in double arithmetic\<close>












section \<open>The particle module (\<^verbatim>\<open>particle.py\<close>)\<close>

record particle =
  p_x :: real
  p_y :: real
  p_vx :: real
  p_vy :: real
  p_radius :: real
  p_color :: "int \<times> int \<times> int"
  p_cc_x :: int
  p_cc_y :: int

record particle_module =
  red_particle :: particle
  green_particle :: particle
  temperature :: real

definition sim_width :: real where "sim_width = 400"
definition sim_height :: real where "sim_height = 400"
definition max_speed_multiplier :: real where "max_speed_multiplier = 3.0"

text \<open>Sequencing of steps that may raise: the first error ends the computation.\<close>

definition bind_err :: "error + 'a \<Rightarrow> ('a \<Rightarrow> error + 'b) \<Rightarrow> error + 'b" where
  "bind_err r f = (case r of Inl e \<Rightarrow> Inl e | Inr v \<Rightarrow> f v)"

text \<open>\<^verbatim>\<open>ParticleModule.get_speed_multiplier\<close>, as a function of \<^verbatim>\<open>self.temperature\<close>.\<close>

definition get_speed_multiplier :: "real \<Rightarrow> real" where
  "get_speed_multiplier t = 1.0 + (t * (max_speed_multiplier - 1.0))"

text \<open>\<^verbatim>\<open>ParticleModule.check_particle_collision\<close>.\<close>

definition check_particle_collision :: "particle \<Rightarrow> particle \<Rightarrow> bool" where
  "check_particle_collision p1 p2 =
     (let dx = p_x p1 - p_x p2;
          dy = p_y p1 - p_y p2;
          distance = sqrt (dx * dx + dy * dy)
      in distance < p_radius p1 + p_radius p2)"

text \<open>
  \<^verbatim>\<open>ParticleModule.resolve_particle_collision\<close>: both particles after the call. The two
  early returns are the guard on a zero distance and the guard on separating particles
  (taken after the positions have been pushed apart).
\<close>

definition resolve_particle_collision :: "particle \<Rightarrow> particle \<Rightarrow> error + particle \<times> particle" where
  "resolve_particle_collision p1 p2 =
     (let dx = p_x p1 - p_x p2;
          dy = p_y p1 - p_y p2;
          distance = sqrt (dx * dx + dy * dy)
      in if distance = 0 then Inr (p1, p2)
         else
           bind_err (py_truediv dx distance) (\<lambda>nx.
           bind_err (py_truediv dy distance) (\<lambda>ny.
             (let overlap = (p_radius p1 + p_radius p2) - distance;
                  q1 = p1\<lparr>p_x := p_x p1 + nx * overlap * 0.5, p_y := p_y p1 + ny * overlap * 0.5\<rparr>;
                  q2 = p2\<lparr>p_x := p_x p2 - nx * overlap * 0.5, p_y := p_y p2 - ny * overlap * 0.5\<rparr>;
                  rvx = p_vx q1 - p_vx q2;
                  rvy = p_vy q1 - p_vy q2;
                  speed = rvx * nx + rvy * ny
              in if speed > 0 then Inr (q1, q2)
                 else Inr (q1\<lparr>p_vx := p_vx q1 - speed * nx, p_vy := p_vy q1 - speed * ny\<rparr>,
                           q2\<lparr>p_vx := p_vx q2 + speed * nx, p_vy := p_vy q2 + speed * ny\<rparr>)))))"

text \<open>\<^verbatim>\<open>ParticleModule.update_particle\<close>, with \<^verbatim>\<open>self.temperature\<close> as an argument.\<close>

definition update_particle :: "real \<Rightarrow> particle \<Rightarrow> particle" where
  "update_particle t p =
     (let speed_mult = get_speed_multiplier t;
          p1 = p\<lparr>p_x := p_x p + p_vx p * speed_mult\<rparr>;
          p2 = p1\<lparr>p_y := p_y p1 + p_vy p1 * speed_mult\<rparr>;
          p3 = (if p_x p2 \<le> p_radius p2
                then p2\<lparr>p_x := p_radius p2, p_vx := \<bar>p_vx p2\<bar>\<rparr>
                else if p_x p2 \<ge> sim_width - p_radius p2
                then p2\<lparr>p_x := sim_width - p_radius p2, p_vx := - \<bar>p_vx p2\<bar>\<rparr>
                else p2)
      in if p_y p3 \<le> p_radius p3
         then p3\<lparr>p_y := p_radius p3, p_vy := \<bar>p_vy p3\<bar>\<rparr>
         else if p_y p3 \<ge> sim_height - p_radius p3
         then p3\<lparr>p_y := sim_height - p_radius p3, p_vy := - \<bar>p_vy p3\<bar>\<rparr>
         else p3)"

text \<open>\<^verbatim>\<open>ParticleModule.send_particle_midi\<close>.\<close>

definition send_particle_midi :: "particle \<Rightarrow> midi_call list" where
  "send_particle_midi p =
     (let x_midi = py_int ((p_x p / sim_width) * 127);
          y_midi = py_int ((p_y p / sim_height) * 127);
          x_midi = max 0 (min 127 x_midi);
          y_midi = max 0 (min 127 y_midi)
      in [Send_cc (p_cc_x p) (of_int x_midi), Send_cc (p_cc_y p) (of_int y_midi)])"

text \<open>\<^verbatim>\<open>ParticleModule.update\<close>: one tick.\<close>

definition particle_update :: "particle_module \<Rightarrow> error + particle_module \<times> midi_call list" where
  "particle_update m =
     (let r = update_particle (temperature m) (red_particle m);
          g = update_particle (temperature m) (green_particle m)
      in bind_err (if check_particle_collision r g then resolve_particle_collision r g
                   else Inr (r, g))
           (\<lambda>(r', g'). Inr (m\<lparr>red_particle := r', green_particle := g'\<rparr>,
                             send_particle_midi r' @ send_particle_midi g')))"


section \<open>The pendulum module (\<^verbatim>\<open>pendulum.py\<close>)\<close>

text \<open>
  \<^verbatim>\<open>self.length\<close> and \<^verbatim>\<open>self.mouse_offset\<close> carry the suffix \<open>_p\<close>. The bob position is
  not a field: the class has none, it recomputes the position from the angle and the
  length wherever it needs it (the trail keeps past positions for drawing only).
\<close>

record pendulum_module =
  length_p :: real
  angle :: real
  angular_velocity :: real
  current_mode :: nat
  cc_number :: int
  trail_points :: "(real \<times> real) list"
  dragging_length :: bool
  dragging_pendulum :: bool
  mouse_offset_p :: real

definition max_length :: real where "max_length = 300"
definition min_length :: real where "min_length = 100"
definition gravity :: real where "gravity = 0.5"
definition damping :: real where "damping = 0.999"
definition pivot_x :: real where "pivot_x = 400"
definition pivot_y :: real where "pivot_y = 150"
definition output_modes :: "string list" where "output_modes = [''MIDI CC'', ''Pitch Bend'']"
definition bob_radius :: real where "bob_radius = 20"
definition max_trail_length :: nat where "max_trail_length = 50"
definition length_slider_x :: int where "length_slider_x = 550"
definition length_slider_y :: int where "length_slider_y = 150"
definition length_slider_height :: int where "length_slider_height = 200"
definition length_slider_width :: int where "length_slider_width = 30"
definition mode_button_x :: int where "mode_button_x = 550"
definition mode_button_y :: int where "mode_button_y = 400"
definition mode_button_width :: int where "mode_button_width = 120"
definition mode_button_height :: int where "mode_button_height = 40"

text \<open>\<^verbatim>\<open>PendulumModule.__init__\<close>.\<close>

definition pendulum_init :: pendulum_module where
  "pendulum_init =
     \<lparr>length_p = 200, angle = pi / 4, angular_velocity = 0, current_mode = 0,
      cc_number = 74, trail_points = [], dragging_length = False,
      dragging_pendulum = False, mouse_offset_p = 0\<rparr>"

text \<open>\<^verbatim>\<open>PendulumModule.calculate_pendulum_position\<close>.\<close>

definition calculate_pendulum_position :: "pendulum_module \<Rightarrow> real \<times> real" where
  "calculate_pendulum_position s =
     (let x = pivot_x + length_p s * sin (angle s);
          y = pivot_y + length_p s * cos (angle s)
      in (x, y))"

text \<open>\<^verbatim>\<open>PendulumModule.update_physics\<close>. The quotient by the length raises when it is zero.\<close>

definition update_physics :: "pendulum_module \<Rightarrow> error + pendulum_module" where
  "update_physics s =
     bind_err (py_truediv gravity (length_p s)) (\<lambda>q.
       (let angular_acceleration = - q * sin (angle s) * 0.1;
            s1 = s\<lparr>angular_velocity := angular_velocity s + angular_acceleration\<rparr>;
            s2 = s1\<lparr>angular_velocity := angular_velocity s1 * damping\<rparr>;
            s3 = s2\<lparr>angle := angle s2 + angular_velocity s2\<rparr>;
            s4 = s3\<lparr>trail_points := trail_points s3 @ [calculate_pendulum_position s3]\<rparr>
        in Inr (if length (trail_points s4) > max_trail_length
                then s4\<lparr>trail_points := tl (trail_points s4)\<rparr>
                else s4)))"

text \<open>\<^verbatim>\<open>PendulumModule.generate_midi_output\<close>.\<close>

definition generate_midi_output :: "pendulum_module \<Rightarrow> error + midi_call list" where
  "generate_midi_output s =
     (case calculate_pendulum_position s of (bob_x, bob_y) \<Rightarrow>
        if current_mode s = 0 then
          (let swing_range = length_p s * 2;
               relative_x = bob_x - (pivot_x - length_p s)
           in bind_err (py_truediv relative_x swing_range) (\<lambda>normalized.
                (let cc_value = py_int (normalized * 127);
                     cc_value = max 0 (min 127 cc_value)
                 in Inr [Send_cc (cc_number s) (of_int cc_value)])))
        else if current_mode s = 1 then
          (let relative_x = bob_x - pivot_x
           in bind_err (py_truediv relative_x (length_p s)) (\<lambda>normalized.
                (let pitch_value = py_int (normalized * 8192);
                     pitch_value = max (- 8192) (min 8191 pitch_value)
                 in Inr [Send_pitch_bend pitch_value])))
        else Inr [])"

text \<open>\<^verbatim>\<open>PendulumModule.update\<close>: one tick. The integrator is skipped while the bob is held.\<close>

definition pendulum_update :: "pendulum_module \<Rightarrow> error + pendulum_module \<times> midi_call list" where
  "pendulum_update s =
     bind_err (if \<not> dragging_pendulum s then update_physics s else Inr s) (\<lambda>s1.
     bind_err (generate_midi_output s1) (\<lambda>calls. Inr (s1, calls)))"

text \<open>
  \<^verbatim>\<open>PendulumModule.handle_mouse_events\<close>. Under its guard \<^verbatim>\<open>dy > 0\<close>,
  \<^verbatim>\<open>math.atan2(dx, dy)\<close> is the arc tangent of \<^verbatim>\<open>dx / dy\<close>.
\<close>

definition pendulum_handle_mouse_events :: "pendulum_module \<Rightarrow> event \<Rightarrow> int \<times> int \<Rightarrow> pendulum_module" where
  "pendulum_handle_mouse_events s ev pos =
     (case pos of (mouse_x, mouse_y) \<Rightarrow>
      (case ev of
         MOUSEBUTTONDOWN button \<Rightarrow>
           if button = 1 then
             (let s1 = (if collidepoint (length_slider_x, length_slider_y,
                                         length_slider_width, length_slider_height)
                             mouse_x mouse_y
                        then (let length_norm = (length_p s - min_length) / (max_length - min_length);
                                  handle_y = real_of_int length_slider_y
                                             + real_of_int length_slider_height
                                             - length_norm * real_of_int length_slider_height
                              in s\<lparr>dragging_length := True,
                                   mouse_offset_p := real_of_int mouse_y - handle_y\<rparr>)
                        else s);
                  s2 = (if collidepoint (mode_button_x, mode_button_y,
                                         mode_button_width, mode_button_height)
                             mouse_x mouse_y
                        then s1\<lparr>current_mode := (current_mode s1 + 1) mod length output_modes\<rparr>
                        else s1)
              in (case calculate_pendulum_position s2 of (bob_x, bob_y) \<Rightarrow>
                    (let bob_distance = sqrt ((real_of_int mouse_x - bob_x)\<^sup>2
                                              + (real_of_int mouse_y - bob_y)\<^sup>2)
                     in if bob_distance < bob_radius * 2
                        then s2\<lparr>dragging_pendulum := True, angular_velocity := 0\<rparr>
                        else s2)))
           else s
       | MOUSEBUTTONUP button \<Rightarrow>
           if button = 1
           then (let s1 = (if dragging_pendulum s then s\<lparr>dragging_pendulum := False\<rparr> else s)
                 in s1\<lparr>dragging_length := False\<rparr>)
           else s
       | MOUSEMOTION \<Rightarrow>
           if dragging_length s then
             (let relative_y = real_of_int mouse_y - mouse_offset_p s - real_of_int length_slider_y;
                  normalized = 1.0 - (relative_y / real_of_int length_slider_height);
                  normalized = max 0 (min 1 normalized)
              in s\<lparr>length_p := min_length + normalized * (max_length - min_length)\<rparr>)
           else if dragging_pendulum s then
             (let dx = real_of_int mouse_x - pivot_x;
                  dy = real_of_int mouse_y - pivot_y
              in if dy > 0 then
                   (let a = arctan (dx / dy);
                        max_angle = pi * 0.8
                    in s\<lparr>angle := max (- max_angle) (min max_angle a)\<rparr>)
                 else s)
           else s
       | OTHER_EVENT \<Rightarrow> s))"


section \<open>Definitions in the words of the specification\<close>

text \<open>
  The spring-return tick of one channel in the words of the specification
  (section 4.2, centre 64): the restoring coefficient is quadratic in the gravity
  strength; outside the deadzone the channel is integrated with damping 0.98 and clamped;
  inside it the channel snaps to the centre when there is gravity; and with no gravity
  (\<open>g = 0\<close>) the channel is left undisturbed by the tick, wherever it is.
\<close>

definition spec_spring_tick :: "real \<Rightarrow> controller \<Rightarrow> controller" where
  "spec_spring_tick g c =
     (let restoring = g\<^sup>2 * 0.8
      in if g = 0 then c
         else if \<bar>val c - 64\<bar> > 0.1 then
           (let v' = (velocity c + (- (val c - 64) * restoring * 0.1)) * 0.98
            in c\<lparr>velocity := v', val := max 0 (min 127 (val c + v'))\<rparr>)
         else if g > 0 then c\<lparr>val := 64, velocity := 0\<rparr>
         else c)"

text \<open>
  The same tick with the last clause narrowed: with no gravity the channel is left
  undisturbed inside the deadzone only; outside the deadzone it is integrated like at any
  other gravity strength, with restoring coefficient 0.
\<close>

definition amended_spring_tick :: "real \<Rightarrow> controller \<Rightarrow> controller" where
  "amended_spring_tick g c =
     (let restoring = g\<^sup>2 * 0.8
      in if \<bar>val c - 64\<bar> > 0.1 then
           (let v' = (velocity c + (- (val c - 64) * restoring * 0.1)) * 0.98
            in c\<lparr>velocity := v', val := max 0 (min 127 (val c + v'))\<rparr>)
         else if g > 0 then c\<lparr>val := 64, velocity := 0\<rparr>
         else c)"


text \<open>
  The collision normal of the specification (section 4.3): the unit vector from the
  centre of the second body to the centre of the first, and the relative velocity
  projected on it (the normal-projected relative speed \<open>s\<close>).
\<close>

definition collision_normal :: "particle \<Rightarrow> particle \<Rightarrow> real \<times> real" where
  "collision_normal p1 p2 =
     (let dx = p_x p1 - p_x p2; dy = p_y p1 - p_y p2; d = sqrt (dx * dx + dy * dy)
      in (dx / d, dy / d))"

definition normal_speed :: "particle \<Rightarrow> particle \<Rightarrow> real" where
  "normal_speed p1 p2 =
     (case collision_normal p1 p2 of (nx, ny) \<Rightarrow>
        (p_vx p1 - p_vx p2) * nx + (p_vy p1 - p_vy p2) * ny)"


text \<open>
  The output mapper of the specification (section 4.6), with rounding to the nearest
  integer, and the same two mappings with truncation toward zero in its place.
\<close>

definition clamp :: "int \<Rightarrow> int \<Rightarrow> int \<Rightarrow> int" where
  "clamp v lo hi = max lo (min hi v)"

definition toControlValue :: "real \<Rightarrow> real \<Rightarrow> real \<Rightarrow> int" where
  "toControlValue x domainMin domainMax =
     clamp (round ((x - domainMin) / (domainMax - domainMin) * 127)) 0 127"

definition toPitchBend :: "real \<Rightarrow> int" where
  "toPitchBend nrm = clamp (round (nrm * 8192)) (- 8192) 8191"

definition toControlValue_trunc :: "real \<Rightarrow> real \<Rightarrow> real \<Rightarrow> int" where
  "toControlValue_trunc x domainMin domainMax =
     clamp (py_int ((x - domainMin) / (domainMax - domainMin) * 127)) 0 127"

definition toPitchBend_trunc :: "real \<Rightarrow> int" where
  "toPitchBend_trunc nrm = clamp (py_int (nrm * 8192)) (- 8192) 8191"



section \<open>Auxiliary definitions\<close>

text \<open>
  A quadratic form in the distance from the centre and the velocity of a channel. One
  tick at full gravity outside the deadzone multiplies it by 0.98.
\<close>

definition energy :: "real \<Rightarrow> real \<Rightarrow> real" where
  "energy d v = 784 * d\<^sup>2 - 584 * d * v + 9800 * v\<^sup>2"

definition channel_energy :: "controller \<Rightarrow> real" where
  "channel_energy c = energy (val c - 64) (velocity c)"

text \<open>
  States of the gravity module reached from the initial state with the default gravity
  strength 0.5: the first slider grabbed at \<open>(120, 400)\<close>; the same slider dragged to the
  top, at \<open>(120, 210)\<close>; and the module one tick later, the button still down.
\<close>

definition grabbed_example :: gravity_module where
  "grabbed_example = gravity_init\<lparr>dragging_controller := Some 0, mouse_offset := 6500 / 127\<rparr>"

definition held_example :: gravity_module where
  "held_example =
     grabbed_example\<lparr>controllers :=
        [\<lparr>cc = 74, val = 127, velocity = 0, name = ''Controller 1''\<rparr>,
         \<lparr>cc = 75, val = 64, velocity = 0, name = ''Controller 2''\<rparr>,
         \<lparr>cc = 76, val = 64, velocity = 0, name = ''Controller 3''\<rparr>]\<rparr>"

definition falling_example :: gravity_module where
  "falling_example =
     held_example\<lparr>controllers :=
        [\<lparr>cc = 74, val = 1257652 / 10000, velocity = - 12348 / 10000, name = ''Controller 1''\<rparr>,
         \<lparr>cc = 75, val = 64, velocity = 0, name = ''Controller 2''\<rparr>,
         \<lparr>cc = 76, val = 64, velocity = 0, name = ''Controller 3''\<rparr>]\<rparr>"





section \<open>The gravity module: one tick\<close>

lemma get_gravity_force_square: "get_gravity_force g = g\<^sup>2 * 0.8"
  by (simp add: get_gravity_force_def power2_eq_square)

lemma get_gravity_force_pos_iff: "0 \<le> g \<Longrightarrow> get_gravity_force g > 0 \<longleftrightarrow> g > 0"
  by (auto simp: get_gravity_force_def zero_less_mult_iff)

text \<open>
  C2, as amended. For every gravity strength \<open>g\<close> in \<open>[0, 1]\<close> and every channel state, the
  pass of \<^verbatim>\<open>GravityModule.update\<close> over one controller is: restoring coefficient
  \<open>g\<^sup>2 \<times> 0.8\<close>; outside the deadzone \<open>\<bar>value - 64\<bar> > 0.1\<close> the velocity gets
  \<open>- (value - 64) \<times> restoring \<times> 0.1\<close> added and is multiplied by 0.98, the value gets the
  velocity added and is clamped to \<open>[0, 127]\<close>, also when \<open>g = 0\<close>; inside the deadzone the
  channel snaps to value 64, velocity 0 when \<open>g > 0\<close> and is returned unchanged when
  \<open>g = 0\<close>. The whole tick does this to every controller of the module and touches nothing
  else. Whenever \<open>g > 0\<close>, and at \<open>g = 0\<close> inside the deadzone, this is the tick of the
  specification as it is written.
\<close>

theorem C2_spring_return_tick:
  assumes "0 \<le> g" and "g \<le> 1"
  shows "fst (update_controller (get_gravity_force g) c) = amended_spring_tick g c
       \<and> (gravity_strength m = g \<longrightarrow>
            fst (gravity_update m)
              = m\<lparr>controllers := map (amended_spring_tick g) (controllers m)\<rparr>)
       \<and> (g > 0 \<or> \<bar>val c - 64\<bar> \<le> 0.1 \<longrightarrow>
            fst (update_controller (get_gravity_force g) c) = spec_spring_tick g c)"
proof -
  have one: "fst (update_controller (get_gravity_force g) c') = amended_spring_tick g c'" for c'
    using assms(1) get_gravity_force_pos_iff[of g]
    by (simp add: update_controller_def amended_spring_tick_def Let_def get_gravity_force_square)
  have "map fst (map (update_controller (get_gravity_force g)) cs) = map (amended_spring_tick g) cs"
    for cs
    by (induction cs) (simp_all add: one)
  moreover have "amended_spring_tick g c = spec_spring_tick g c"
    if "g > 0 \<or> \<bar>val c - 64\<bar> \<le> 0.1"
    using that by (auto simp: amended_spring_tick_def spec_spring_tick_def Let_def)
  ultimately show ?thesis
    by (simp add: one gravity_update_def Let_def)
qed

theorem C2_spring_return_tick_witness:
  "fst (update_controller (get_gravity_force 1)
          \<lparr>cc = 74, val = 127, velocity = 0, name = ''Controller 1''\<rparr>)
     = \<lparr>cc = 74, val = 1220608 / 10000, velocity = - 49392 / 10000, name = ''Controller 1''\<rparr>
   \<and> spec_spring_tick 1 \<lparr>cc = 74, val = 127, velocity = 0, name = ''Controller 1''\<rparr>
     = \<lparr>cc = 74, val = 1220608 / 10000, velocity = - 49392 / 10000, name = ''Controller 1''\<rparr>
   \<and> fst (gravity_update gravity_init) = gravity_init"
proof -
  have one: "(0::real) \<le> 1" "(1::real) \<le> 1" by simp_all
  have half: "(0::real) \<le> 1 / 2" "(1 / 2::real) \<le> 1" by simp_all
  have g: "gravity_strength gravity_init = 1 / 2"
    by (simp add: gravity_init_def)
  note at_one = C2_spring_return_tick[OF one,
         where c = "\<lparr>cc = 74, val = 127, velocity = 0, name = ''Controller 1''\<rparr>"
           and m = gravity_init]
  from at_one
  have a: "fst (update_controller (get_gravity_force 1)
          \<lparr>cc = 74, val = 127, velocity = 0, name = ''Controller 1''\<rparr>)
     = \<lparr>cc = 74, val = 1220608 / 10000, velocity = - 49392 / 10000, name = ''Controller 1''\<rparr>"
    by (simp add: amended_spring_tick_def Let_def)
  have "(0::real) < 1" by simp
  with at_one
  have "fst (update_controller (get_gravity_force 1)
          \<lparr>cc = 74, val = 127, velocity = 0, name = ''Controller 1''\<rparr>)
     = spec_spring_tick 1 \<lparr>cc = 74, val = 127, velocity = 0, name = ''Controller 1''\<rparr>"
    by blast
  with a have b: "spec_spring_tick 1 \<lparr>cc = 74, val = 127, velocity = 0, name = ''Controller 1''\<rparr>
     = \<lparr>cc = 74, val = 1220608 / 10000, velocity = - 49392 / 10000, name = ''Controller 1''\<rparr>"
    by simp
  from C2_spring_return_tick[OF half, where m = gravity_init] g
  have "fst (gravity_update gravity_init)
          = gravity_init\<lparr>controllers := map (amended_spring_tick (1 / 2)) (controllers gravity_init)\<rparr>"
    by simp
  then have "fst (gravity_update gravity_init) = gravity_init"
    by (simp add: gravity_init_def amended_spring_tick_def Let_def)
  with a b show ?thesis by simp
qed

text \<open>
  C2 as stated says that at \<open>g = 0\<close> the tick leaves the channel undisturbed. A channel at
  value 100 with velocity 2 (outside the deadzone) is moved by the tick at \<open>g = 0\<close>: the
  velocity is damped to 1.96 and the value becomes 101.96.
\<close>

theorem C2_zero_gravity_counterexample:
  "fst (update_controller (get_gravity_force 0)
          \<lparr>cc = 74, val = 100, velocity = 2, name = ''Controller 1''\<rparr>)
     = \<lparr>cc = 74, val = 10196 / 100, velocity = 196 / 100, name = ''Controller 1''\<rparr>
   \<and> spec_spring_tick 0 \<lparr>cc = 74, val = 100, velocity = 2, name = ''Controller 1''\<rparr>
     = \<lparr>cc = 74, val = 100, velocity = 2, name = ''Controller 1''\<rparr>"
  by (simp add: update_controller_def get_gravity_force_def spec_spring_tick_def Let_def)

lemma zero_gravity_at_rest:
  assumes "velocity c = 0" and "0 \<le> val c" and "val c \<le> 127"
  shows "fst (update_controller (get_gravity_force 0) c) = c"
  using assms by (simp add: update_controller_def get_gravity_force_def Let_def)

lemma zero_gravity_coasts:
  assumes "\<bar>val c - 64\<bar> > 0.1"
  shows "fst (update_controller (get_gravity_force 0) c)
           = c\<lparr>velocity := velocity c * 0.98,
                val := max 0 (min 127 (val c + velocity c * 0.98))\<rparr>"
  using assms by (simp add: update_controller_def get_gravity_force_def Let_def)


section \<open>The particle module: collisions and walls\<close>

lemma bind_err_Inr [simp]: "bind_err (Inr v) f = f v"
  by (simp add: bind_err_def)

lemma bind_err_Inl [simp]: "bind_err (Inl e) f = Inl e"
  by (simp add: bind_err_def)

lemma py_truediv_nonzero [simp]: "b \<noteq> 0 \<Longrightarrow> py_truediv a b = Inr (a / b)"
  by (simp add: py_truediv_def)

lemma py_truediv_zero [simp]: "py_truediv a 0 = Inl ZeroDivisionError"
  by (simp add: py_truediv_def)

lemma distance_zero_iff: "sqrt (dx * dx + dy * dy) = 0 \<longleftrightarrow> dx = 0 \<and> dy = (0::real)"
  by (simp add: add_nonneg_eq_0_iff)

lemma unit_normal:
  fixes dx dy :: real
  assumes "dx \<noteq> 0 \<or> dy \<noteq> 0"
  shows "(dx / sqrt (dx * dx + dy * dy)) * (dx / sqrt (dx * dx + dy * dy))
       + (dy / sqrt (dx * dx + dy * dy)) * (dy / sqrt (dx * dx + dy * dy)) = 1"
proof -
  let ?q = "dx * dx + dy * dy"
  have nz: "?q \<noteq> 0"
    using assms by (simp add: add_nonneg_eq_0_iff)
  have "0 \<le> ?q" by simp
  with nz have pos: "0 < ?q" by linarith
  have sq: "sqrt ?q * sqrt ?q = ?q"
    using pos by simp
  have "(dx / sqrt ?q) * (dx / sqrt ?q) + (dy / sqrt ?q) * (dy / sqrt ?q)
          = (dx * dx + dy * dy) / (sqrt ?q * sqrt ?q)"
    by (simp only: times_divide_times_eq add_divide_distrib)
  also have "\<dots> = 1"
    by (simp only: sq divide_self[OF nz])
  finally show ?thesis .
qed

lemma resolve_never_raises: "\<exists>q1 q2. resolve_particle_collision p1 p2 = Inr (q1, q2)"
  by (simp add: resolve_particle_collision_def Let_def)

text \<open>
  C10. When the centres of the two bodies are identical, the distance is zero and
  \<^verbatim>\<open>resolve_particle_collision\<close> returns at its guard: the call ends without an error
  (no quotient by the zero distance is formed) and both bodies come back with the
  positions and velocities they had.
\<close>

theorem C10_identical_centers_skipped:
  assumes "p_x p1 = p_x p2" and "p_y p1 = p_y p2"
  shows "resolve_particle_collision p1 p2 = Inr (p1, p2)"
  using assms by (simp add: resolve_particle_collision_def)

lemma normal_exchange:
  fixes nx ny a b c d :: real
  assumes unit: "nx * nx + ny * ny = 1"
  shows "(a - ((a - c) * nx + (b - d) * ny) * nx) * nx
       + (b - ((a - c) * nx + (b - d) * ny) * ny) * ny = c * nx + d * ny"
    and "(c + ((a - c) * nx + (b - d) * ny) * nx) * nx
       + (d + ((a - c) * nx + (b - d) * ny) * ny) * ny = a * nx + b * ny"
proof -
  let ?s = "(a - c) * nx + (b - d) * ny"
  have "(a - ?s * nx) * nx + (b - ?s * ny) * ny = a * nx + b * ny - ?s * (nx * nx + ny * ny)"
    by (simp add: algebra_simps)
  then show "(a - ?s * nx) * nx + (b - ?s * ny) * ny = c * nx + d * ny"
    by (simp add: unit algebra_simps)
  have "(c + ?s * nx) * nx + (d + ?s * ny) * ny = c * nx + d * ny + ?s * (nx * nx + ny * ny)"
    by (simp add: algebra_simps)
  then show "(c + ?s * nx) * nx + (d + ?s * ny) * ny = a * nx + b * ny"
    by (simp add: unit algebra_simps)
qed

lemma collision_normal_unit:
  assumes "p_x p1 \<noteq> p_x p2 \<or> p_y p1 \<noteq> p_y p2"
  shows "fst (collision_normal p1 p2) * fst (collision_normal p1 p2)
       + snd (collision_normal p1 p2) * snd (collision_normal p1 p2) = 1"
  using unit_normal[of "p_x p1 - p_x p2" "p_y p1 - p_y p2"] assms
  by (simp add: collision_normal_def Let_def)

lemma resolve_distinct:
  assumes "p_x p1 \<noteq> p_x p2 \<or> p_y p1 \<noteq> p_y p2"
  shows "resolve_particle_collision p1 p2 =
     (let nx = fst (collision_normal p1 p2);
          ny = snd (collision_normal p1 p2);
          s = normal_speed p1 p2;
          overlap = (p_radius p1 + p_radius p2)
                    - sqrt ((p_x p1 - p_x p2) * (p_x p1 - p_x p2) + (p_y p1 - p_y p2) * (p_y p1 - p_y p2));
          q1 = p1\<lparr>p_x := p_x p1 + nx * overlap * 0.5, p_y := p_y p1 + ny * overlap * 0.5\<rparr>;
          q2 = p2\<lparr>p_x := p_x p2 - nx * overlap * 0.5, p_y := p_y p2 - ny * overlap * 0.5\<rparr>
      in if s > 0 then Inr (q1, q2)
         else Inr (q1\<lparr>p_vx := p_vx p1 - s * nx, p_vy := p_vy p1 - s * ny\<rparr>,
                   q2\<lparr>p_vx := p_vx p2 + s * nx, p_vy := p_vy p2 + s * ny\<rparr>))"
proof -
  have nz: "sqrt ((p_x p1 - p_x p2) * (p_x p1 - p_x p2) + (p_y p1 - p_y p2) * (p_y p1 - p_y p2)) \<noteq> 0"
    using assms by (simp add: distance_zero_iff)
  show ?thesis
    unfolding resolve_particle_collision_def Let_def
    by (simp only: nz if_False py_truediv_nonzero[OF nz] bind_err_Inr)
       (simp add: collision_normal_def normal_speed_def Let_def)
qed

text \<open>
  C5. For two bodies with distinct centres, \<^verbatim>\<open>resolve_particle_collision\<close> ends without an
  error. With \<open>n\<close> the collision normal and \<open>s\<close> the normal-projected relative speed of the
  incoming velocities: when the bodies approach (\<open>s < 0\<close>) the velocities become
  \<open>v1 - s\<cdot>n\<close> and \<open>v2 + s\<cdot>n\<close>, and the normal components of the two velocities are
  exchanged; when they do not approach, the velocities are as before. In both cases the
  sum of the two velocities is unchanged. The theorem holds for all bodies with distinct
  centres, overlapping or not.
\<close>

theorem C5_collision_impulse:
  assumes "p_x p1 \<noteq> p_x p2 \<or> p_y p1 \<noteq> p_y p2"
  shows "\<exists>q1 q2. resolve_particle_collision p1 p2 = Inr (q1, q2)
     \<and> (case collision_normal p1 p2 of (nx, ny) \<Rightarrow>
          (let s = normal_speed p1 p2
           in (if s < 0
               then p_vx q1 = p_vx p1 - s * nx \<and> p_vy q1 = p_vy p1 - s * ny
                  \<and> p_vx q2 = p_vx p2 + s * nx \<and> p_vy q2 = p_vy p2 + s * ny
                  \<and> p_vx q1 * nx + p_vy q1 * ny = p_vx p2 * nx + p_vy p2 * ny
                  \<and> p_vx q2 * nx + p_vy q2 * ny = p_vx p1 * nx + p_vy p1 * ny
               else p_vx q1 = p_vx p1 \<and> p_vy q1 = p_vy p1
                  \<and> p_vx q2 = p_vx p2 \<and> p_vy q2 = p_vy p2)
            \<and> p_vx q1 + p_vx q2 = p_vx p1 + p_vx p2
            \<and> p_vy q1 + p_vy q2 = p_vy p1 + p_vy p2))"
proof -
  obtain nx ny where n: "collision_normal p1 p2 = (nx, ny)"
    by (cases "collision_normal p1 p2")
  define s where "s = normal_speed p1 p2"
  have unit: "nx * nx + ny * ny = 1"
    using collision_normal_unit[OF assms] n by simp
  have s_eq: "s = (p_vx p1 - p_vx p2) * nx + (p_vy p1 - p_vy p2) * ny"
    by (simp add: s_def normal_speed_def n)
  note ex = normal_exchange[OF unit, where a = "p_vx p1" and b = "p_vy p1" and c = "p_vx p2" and d = "p_vy p2",
      folded s_eq]
  show ?thesis
  proof (cases "s > 0")
    case True
    then show ?thesis
      by (simp add: resolve_distinct[OF assms] n Let_def flip: s_def)
  next
    case False
    show ?thesis
    proof (cases "s < 0")
      case True
      then show ?thesis
        using ex by (simp add: resolve_distinct[OF assms] n Let_def flip: s_def)
    next
      case False
      with \<open>\<not> s > 0\<close> have "s = 0" by simp
      then show ?thesis
        by (simp add: resolve_distinct[OF assms] n Let_def flip: s_def)
    qed
  qed
qed

lemma sqrt_400: "sqrt (400::real) = 20"
  using real_sqrt_abs2[of "20::real"] by simp

theorem C5_collision_impulse_witness:
  "\<exists>q1 q2. resolve_particle_collision
       \<lparr>p_x = 10, p_y = 100, p_vx = 3, p_vy = 0, p_radius = 15,
        p_color = (255, 100, 100), p_cc_x = 74, p_cc_y = 75\<rparr>
       \<lparr>p_x = 30, p_y = 100, p_vx = 0, p_vy = 0, p_radius = 15,
        p_color = (100, 255, 100), p_cc_x = 76, p_cc_y = 77\<rparr> = Inr (q1, q2)
     \<and> p_vx q1 = 0 \<and> p_vy q1 = 0 \<and> p_vx q2 = 3 \<and> p_vy q2 = 0"
proof -
  define P1 where "P1 = \<lparr>p_x = 10, p_y = 100, p_vx = 3, p_vy = 0, p_radius = 15,
        p_color = (255::int, 100::int, 100::int), p_cc_x = 74, p_cc_y = 75\<rparr>"
  define P2 where "P2 = \<lparr>p_x = 30, p_y = 100, p_vx = 0, p_vy = 0, p_radius = 15,
        p_color = (100::int, 255::int, 100::int), p_cc_x = 76, p_cc_y = 77\<rparr>"
  have distinct: "p_x P1 \<noteq> p_x P2 \<or> p_y P1 \<noteq> p_y P2"
    by (simp add: P1_def P2_def)
  have n: "collision_normal P1 P2 = (- 1, 0)"
    by (simp add: collision_normal_def P1_def P2_def sqrt_400)
  have s: "normal_speed P1 P2 = - 3"
    by (simp add: normal_speed_def n) (simp add: P1_def P2_def)
  from C5_collision_impulse[OF distinct]
  obtain q1 q2 where "resolve_particle_collision P1 P2 = Inr (q1, q2)"
      and "p_vx q1 = 0 \<and> p_vy q1 = 0 \<and> p_vx q2 = 3 \<and> p_vy q2 = 0"
    unfolding n s by (auto simp: P1_def P2_def)
  then show ?thesis
    unfolding P1_def P2_def by blast
qed

theorem C10_identical_centers_skipped_witness:
  "resolve_particle_collision
       \<lparr>p_x = 200, p_y = 100, p_vx = 3, p_vy = - 1, p_radius = 15,
        p_color = (255, 100, 100), p_cc_x = 74, p_cc_y = 75\<rparr>
       \<lparr>p_x = 200, p_y = 100, p_vx = - 2, p_vy = 1, p_radius = 15,
        p_color = (100, 255, 100), p_cc_x = 76, p_cc_y = 77\<rparr>
   = Inr (\<lparr>p_x = 200, p_y = 100, p_vx = 3, p_vy = - 1, p_radius = 15,
        p_color = (255, 100, 100), p_cc_x = 74, p_cc_y = 75\<rparr>,
       \<lparr>p_x = 200, p_y = 100, p_vx = - 2, p_vy = 1, p_radius = 15,
        p_color = (100, 255, 100), p_cc_x = 76, p_cc_y = 77\<rparr>)"
  by (rule C10_identical_centers_skipped) simp_all

lemma update_particle_x:
  "p_x (update_particle t p) =
     (if p_x p + p_vx p * get_speed_multiplier t \<le> p_radius p then p_radius p
      else if p_x p + p_vx p * get_speed_multiplier t \<ge> sim_width - p_radius p
      then sim_width - p_radius p
      else p_x p + p_vx p * get_speed_multiplier t)"
  by (simp add: update_particle_def Let_def)

lemma update_particle_vx:
  "p_vx (update_particle t p) =
     (if p_x p + p_vx p * get_speed_multiplier t \<le> p_radius p then \<bar>p_vx p\<bar>
      else if p_x p + p_vx p * get_speed_multiplier t \<ge> sim_width - p_radius p
      then - \<bar>p_vx p\<bar>
      else p_vx p)"
  by (simp add: update_particle_def Let_def)

lemma update_particle_y:
  "p_y (update_particle t p) =
     (if p_y p + p_vy p * get_speed_multiplier t \<le> p_radius p then p_radius p
      else if p_y p + p_vy p * get_speed_multiplier t \<ge> sim_height - p_radius p
      then sim_height - p_radius p
      else p_y p + p_vy p * get_speed_multiplier t)"
  by (simp add: update_particle_def Let_def)

lemma update_particle_vy:
  "p_vy (update_particle t p) =
     (if p_y p + p_vy p * get_speed_multiplier t \<le> p_radius p then \<bar>p_vy p\<bar>
      else if p_y p + p_vy p * get_speed_multiplier t \<ge> sim_height - p_radius p
      then - \<bar>p_vy p\<bar>
      else p_vy p)"
  by (simp add: update_particle_def Let_def)

lemma update_particle_rest:
  "p_radius (update_particle t p) = p_radius p"
  "p_color (update_particle t p) = p_color p"
  "p_cc_x (update_particle t p) = p_cc_x p"
  "p_cc_y (update_particle t p) = p_cc_y p"
  by (simp_all add: update_particle_def Let_def)

lemma get_speed_multiplier_pos: "0 \<le> t \<Longrightarrow> 0 < get_speed_multiplier t"
  by (simp add: get_speed_multiplier_def max_speed_multiplier_def add_pos_nonneg)

lemma reflect_low:
  fixes a x v k :: real
  assumes "0 < k" and "a \<le> x" and "x + v * k \<le> a"
  shows "\<bar>v\<bar> = - v"
proof -
  from assms have "v * k \<le> 0" by linarith
  with \<open>0 < k\<close> have "v \<le> 0" by (simp add: mult_le_0_iff)
  then show ?thesis by simp
qed

lemma reflect_high:
  fixes b x v k :: real
  assumes "0 < k" and "x \<le> b" and "b \<le> x + v * k"
  shows "- \<bar>v\<bar> = - v"
proof -
  from assms have "0 \<le> v * k" by linarith
  with \<open>0 < k\<close> have "0 \<le> v" by (simp add: zero_le_mult_iff)
  then show ?thesis by simp
qed

text \<open>
  C6. A body that is inside the wall band \<open>[radius, boundary - radius]\<close> on an axis and
  whose position update on that axis reaches or passes an edge of the band leaves
  \<^verbatim>\<open>update_particle\<close> with the position on that edge and the velocity component of that
  axis negated (same magnitude); the velocity component of the other axis is unchanged
  when the update of the other axis stays strictly inside its band. The temperature is in
  \<open>[0, 1]\<close>, so the speed multiplier is positive. Stated for the horizontal and for the
  vertical axis.
\<close>

theorem C6_wall_reflection:
  assumes "0 \<le> t" and "t \<le> 1"
  shows "(p_radius p \<le> p_x p \<and> p_x p \<le> sim_width - p_radius p
          \<and> (p_x p + p_vx p * get_speed_multiplier t \<le> p_radius p
             \<or> p_x p + p_vx p * get_speed_multiplier t \<ge> sim_width - p_radius p)
         \<longrightarrow> p_x (update_particle t p)
               = (if p_x p + p_vx p * get_speed_multiplier t \<le> p_radius p
                  then p_radius p else sim_width - p_radius p)
           \<and> p_vx (update_particle t p) = - p_vx p
           \<and> (p_radius p < p_y p + p_vy p * get_speed_multiplier t
              \<and> p_y p + p_vy p * get_speed_multiplier t < sim_height - p_radius p
              \<longrightarrow> p_vy (update_particle t p) = p_vy p))
       \<and> (p_radius p \<le> p_y p \<and> p_y p \<le> sim_height - p_radius p
          \<and> (p_y p + p_vy p * get_speed_multiplier t \<le> p_radius p
             \<or> p_y p + p_vy p * get_speed_multiplier t \<ge> sim_height - p_radius p)
         \<longrightarrow> p_y (update_particle t p)
               = (if p_y p + p_vy p * get_speed_multiplier t \<le> p_radius p
                  then p_radius p else sim_height - p_radius p)
           \<and> p_vy (update_particle t p) = - p_vy p
           \<and> (p_radius p < p_x p + p_vx p * get_speed_multiplier t
              \<and> p_x p + p_vx p * get_speed_multiplier t < sim_width - p_radius p
              \<longrightarrow> p_vx (update_particle t p) = p_vx p))"
proof -
  define k where "k = get_speed_multiplier t"
  have kpos: "0 < k"
    using assms(1) by (simp add: k_def get_speed_multiplier_pos)
  have X: "p_x (update_particle t p)
               = (if p_x p + p_vx p * k \<le> p_radius p then p_radius p else sim_width - p_radius p)
           \<and> p_vx (update_particle t p) = - p_vx p"
    if "p_radius p \<le> p_x p" "p_x p \<le> sim_width - p_radius p"
       "p_x p + p_vx p * k \<le> p_radius p \<or> p_x p + p_vx p * k \<ge> sim_width - p_radius p"
  proof (cases "p_x p + p_vx p * k \<le> p_radius p")
    case True
    with reflect_low[OF kpos that(1) True] show ?thesis
      by (simp add: update_particle_x update_particle_vx flip: k_def)
  next
    case False
    with that(3) have hi: "sim_width - p_radius p \<le> p_x p + p_vx p * k" by simp
    with False reflect_high[OF kpos that(2) hi] show ?thesis
      by (simp add: update_particle_x update_particle_vx flip: k_def)
  qed
  have Y: "p_y (update_particle t p)
               = (if p_y p + p_vy p * k \<le> p_radius p then p_radius p else sim_height - p_radius p)
           \<and> p_vy (update_particle t p) = - p_vy p"
    if "p_radius p \<le> p_y p" "p_y p \<le> sim_height - p_radius p"
       "p_y p + p_vy p * k \<le> p_radius p \<or> p_y p + p_vy p * k \<ge> sim_height - p_radius p"
  proof (cases "p_y p + p_vy p * k \<le> p_radius p")
    case True
    with reflect_low[OF kpos that(1) True] show ?thesis
      by (simp add: update_particle_y update_particle_vy flip: k_def)
  next
    case False
    with that(3) have hi: "sim_height - p_radius p \<le> p_y p + p_vy p * k" by simp
    with False reflect_high[OF kpos that(2) hi] show ?thesis
      by (simp add: update_particle_y update_particle_vy flip: k_def)
  qed
  have VY: "p_vy (update_particle t p) = p_vy p"
    if "p_radius p < p_y p + p_vy p * k" "p_y p + p_vy p * k < sim_height - p_radius p"
    using that by (simp add: update_particle_vy flip: k_def)
  have VX: "p_vx (update_particle t p) = p_vx p"
    if "p_radius p < p_x p + p_vx p * k" "p_x p + p_vx p * k < sim_width - p_radius p"
    using that by (simp add: update_particle_vx flip: k_def)
  show ?thesis
    unfolding k_def[symmetric] using X Y VX VY by blast
qed

theorem C6_wall_reflection_witness:
  "update_particle (1 / 2)
       \<lparr>p_x = 16, p_y = 100, p_vx = - 3, p_vy = 1, p_radius = 15,
        p_color = (255, 100, 100), p_cc_x = 74, p_cc_y = 75\<rparr>
   = \<lparr>p_x = 15, p_y = 102, p_vx = 3, p_vy = 1, p_radius = 15,
        p_color = (255, 100, 100), p_cc_x = 74, p_cc_y = 75\<rparr>"
proof -
  define P where "P = \<lparr>p_x = 16, p_y = 100, p_vx = - 3, p_vy = 1, p_radius = 15,
        p_color = (255::int, 100::int, 100::int), p_cc_x = 74, p_cc_y = 75\<rparr>"
  have t: "(0::real) \<le> 1 / 2" "(1 / 2 ::real) \<le> 1" by simp_all
  have k: "get_speed_multiplier (1 / 2) = 2"
    by (simp add: get_speed_multiplier_def max_speed_multiplier_def)
  have "p_x (update_particle (1 / 2) P) = 15 \<and> p_vx (update_particle (1 / 2) P) = 3
      \<and> p_vy (update_particle (1 / 2) P) = 1"
    using C6_wall_reflection[OF t, of P]
    unfolding k by (simp add: P_def sim_width_def sim_height_def)
  moreover have "p_y (update_particle (1 / 2) P) = 102"
    unfolding update_particle_y k by (simp add: P_def sim_height_def)
  ultimately show ?thesis
    unfolding P_def[symmetric]
    by (cases "update_particle (1 / 2) P")
       (use update_particle_rest[of "1 / 2" P] in \<open>simp add: P_def\<close>)
qed



section \<open>The output mapping\<close>

lemma py_int_truncates:
  "\<bar>real_of_int (py_int x)\<bar> \<le> \<bar>x\<bar>" and "\<bar>x - real_of_int (py_int x)\<bar> < 1"
proof -
  have f: "real_of_int \<lfloor>x\<rfloor> \<le> x \<and> x < real_of_int \<lfloor>x\<rfloor> + 1"
    by linarith
  have c: "real_of_int \<lceil>x\<rceil> - 1 < x \<and> x \<le> real_of_int \<lceil>x\<rceil>"
    by linarith
  have f0: "0 \<le> real_of_int \<lfloor>x\<rfloor>" if "0 \<le> x"
    using that by simp
  have c0: "real_of_int \<lceil>x\<rceil> \<le> 0" if "x < 0"
    using that by (simp add: ceiling_le_iff)
  show "\<bar>real_of_int (py_int x)\<bar> \<le> \<bar>x\<bar>"
  proof (cases "0 \<le> x")
    case True
    then have "py_int x = \<lfloor>x\<rfloor>" by (simp add: py_int_def)
    with f f0[OF True] True show ?thesis by linarith
  next
    case False
    then have "py_int x = \<lceil>x\<rceil>" by (simp add: py_int_def)
    with c c0 False show ?thesis by linarith
  qed
  show "\<bar>x - real_of_int (py_int x)\<bar> < 1"
  proof (cases "0 \<le> x")
    case True
    then have "py_int x = \<lfloor>x\<rfloor>" by (simp add: py_int_def)
    with f show ?thesis by linarith
  next
    case False
    then have "py_int x = \<lceil>x\<rceil>" by (simp add: py_int_def)
    with c show ?thesis by linarith
  qed
qed

lemma generate_midi_output_cc:
  assumes "length_p s \<noteq> 0" and "current_mode s = 0"
  shows "generate_midi_output s =
     Inr [Send_cc (cc_number s)
            (of_int (max 0 (min 127 (py_int
               ((pivot_x + length_p s * sin (angle s) - (pivot_x - length_p s))
                 / (length_p s * 2) * 127)))))]"
  using assms by (simp add: generate_midi_output_def calculate_pendulum_position_def Let_def)

lemma generate_midi_output_bend:
  assumes "length_p s \<noteq> 0" and "current_mode s = 1"
  shows "generate_midi_output s =
     Inr [Send_pitch_bend (max (- 8192) (min 8191 (py_int
            ((pivot_x + length_p s * sin (angle s) - pivot_x) / length_p s * 8192))))]"
  using assms by (simp add: generate_midi_output_def calculate_pendulum_position_def Let_def)

text \<open>
  C3, as amended. For every particle, whatever its position, \<^verbatim>\<open>send_particle_midi\<close> sends
  two control values that are integers in \<open>[0, 127]\<close>. For every pendulum angle and every
  arm length other than zero, \<^verbatim>\<open>generate_midi_output\<close> sends an integer control value in
  \<open>[0, 127]\<close> in control-value mode and an integer bend value in \<open>[-8192, 8191]\<close> in
  pitch-bend mode.
\<close>

theorem C3_outputs_in_range:
  "(\<exists>a b. send_particle_midi p = [Send_cc (p_cc_x p) (of_int a), Send_cc (p_cc_y p) (of_int b)]
          \<and> 0 \<le> a \<and> a \<le> 127 \<and> 0 \<le> b \<and> b \<le> 127)
   \<and> (length_p s \<noteq> 0 \<and> current_mode s = 0 \<longrightarrow>
        (\<exists>k. generate_midi_output s = Inr [Send_cc (cc_number s) (of_int k)]
            \<and> 0 \<le> k \<and> k \<le> 127))
   \<and> (length_p s \<noteq> 0 \<and> current_mode s = 1 \<longrightarrow>
        (\<exists>k. generate_midi_output s = Inr [Send_pitch_bend k]
            \<and> - 8192 \<le> k \<and> k \<le> 8191))"
proof (intro conjI impI)
  show "\<exists>a b. send_particle_midi p = [Send_cc (p_cc_x p) (of_int a), Send_cc (p_cc_y p) (of_int b)]
          \<and> 0 \<le> a \<and> a \<le> 127 \<and> 0 \<le> b \<and> b \<le> 127"
    unfolding send_particle_midi_def Let_def
    by (intro exI conjI, rule refl) simp_all
next
  assume "length_p s \<noteq> 0 \<and> current_mode s = 0"
  then have "length_p s \<noteq> 0" "current_mode s = 0" by simp_all
  from generate_midi_output_cc[OF this]
  show "\<exists>k. generate_midi_output s = Inr [Send_cc (cc_number s) (of_int k)] \<and> 0 \<le> k \<and> k \<le> 127"
    by (intro exI conjI, assumption) simp_all
next
  assume "length_p s \<noteq> 0 \<and> current_mode s = 1"
  then have "length_p s \<noteq> 0" "current_mode s = 1" by simp_all
  from generate_midi_output_bend[OF this]
  show "\<exists>k. generate_midi_output s = Inr [Send_pitch_bend k] \<and> - 8192 \<le> k \<and> k \<le> 8191"
    by (intro exI conjI, assumption) simp_all
qed

theorem C3_outputs_in_range_witness:
  "(\<exists>k. generate_midi_output pendulum_init = Inr [Send_cc 74 (of_int k)] \<and> 0 \<le> k \<and> k \<le> 127)
   \<and> (\<exists>k. generate_midi_output (pendulum_init\<lparr>current_mode := 1\<rparr>) = Inr [Send_pitch_bend k]
          \<and> - 8192 \<le> k \<and> k \<le> 8191)"
  using C3_outputs_in_range[where s = pendulum_init]
        C3_outputs_in_range[where s = "pendulum_init\<lparr>current_mode := 1\<rparr>"]
  by (simp add: pendulum_init_def)

text \<open>
  C3 as stated covers every arm length. With an arm of length zero
  \<^verbatim>\<open>generate_midi_output\<close> divides by the length (or by twice the length) and raises
  \<^verbatim>\<open>ZeroDivisionError\<close> in both modes: no value is produced. The length slider keeps the
  length in \<open>[100, 300]\<close>.
\<close>

theorem C3_zero_length_counterexample:
  "generate_midi_output (pendulum_init\<lparr>length_p := 0\<rparr>) = Inl ZeroDivisionError
   \<and> generate_midi_output (pendulum_init\<lparr>length_p := 0, current_mode := 1\<rparr>) = Inl ZeroDivisionError"
  by (simp add: generate_midi_output_def calculate_pendulum_position_def pendulum_init_def Let_def)

text \<open>
  C4, as amended. The control value of a particle axis is
  \<open>clamp(int((x - 0) / (sim_width - 0) \<times> 127), 0, 127)\<close>; the control value of the pendulum is
  the same mapping of the bob's x over the domain \<open>[pivot_x - L, pivot_x + L]\<close>; the bend
  value is \<open>clamp(int(norm \<times> 8192), -8192, 8191)\<close> with \<open>norm = (bob_x - pivot_x) / L\<close>. In all
  of them \<open>int\<close> is truncation toward zero, not rounding to the nearest integer.
\<close>

theorem C4_mapping_truncates:
  "send_particle_midi p =
     [Send_cc (p_cc_x p) (of_int (toControlValue_trunc (p_x p) 0 sim_width)),
      Send_cc (p_cc_y p) (of_int (toControlValue_trunc (p_y p) 0 sim_height))]
   \<and> (length_p s \<noteq> 0 \<and> current_mode s = 0 \<longrightarrow>
        generate_midi_output s =
          Inr [Send_cc (cc_number s)
                 (of_int (toControlValue_trunc (fst (calculate_pendulum_position s))
                            (pivot_x - length_p s) (pivot_x + length_p s)))])
   \<and> (length_p s \<noteq> 0 \<and> current_mode s = 1 \<longrightarrow>
        generate_midi_output s =
          Inr [Send_pitch_bend
                 (toPitchBend_trunc ((fst (calculate_pendulum_position s) - pivot_x) / length_p s))])"
proof (intro conjI impI)
  show "send_particle_midi p =
     [Send_cc (p_cc_x p) (of_int (toControlValue_trunc (p_x p) 0 sim_width)),
      Send_cc (p_cc_y p) (of_int (toControlValue_trunc (p_y p) 0 sim_height))]"
    by (simp add: send_particle_midi_def toControlValue_trunc_def clamp_def Let_def)
next
  assume "length_p s \<noteq> 0 \<and> current_mode s = 0"
  then have h: "length_p s \<noteq> 0" "current_mode s = 0" by simp_all
  have "pivot_x + length_p s - (pivot_x - length_p s) = length_p s * 2" by simp
  then show "generate_midi_output s =
          Inr [Send_cc (cc_number s)
                 (of_int (toControlValue_trunc (fst (calculate_pendulum_position s))
                            (pivot_x - length_p s) (pivot_x + length_p s)))]"
    by (simp only: generate_midi_output_cc[OF h] toControlValue_trunc_def clamp_def
          calculate_pendulum_position_def Let_def fst_conv)
next
  assume "length_p s \<noteq> 0 \<and> current_mode s = 1"
  then have h: "length_p s \<noteq> 0" "current_mode s = 1" by simp_all
  show "generate_midi_output s =
          Inr [Send_pitch_bend
                 (toPitchBend_trunc ((fst (calculate_pendulum_position s) - pivot_x) / length_p s))]"
    by (simp only: generate_midi_output_bend[OF h] toPitchBend_trunc_def clamp_def
          calculate_pendulum_position_def Let_def fst_conv)
qed

theorem C4_mapping_truncates_witness:
  "generate_midi_output (pendulum_init\<lparr>angle := 0\<rparr>) = Inr [Send_cc 74 63]
   \<and> generate_midi_output (pendulum_init\<lparr>angle := 0, current_mode := 1\<rparr>) = Inr [Send_pitch_bend 0]"
  using C4_mapping_truncates[where s = "pendulum_init\<lparr>angle := 0\<rparr>"]
        C4_mapping_truncates[where s = "pendulum_init\<lparr>angle := 0, current_mode := 1\<rparr>"]
  by (simp add: pendulum_init_def calculate_pendulum_position_def toControlValue_trunc_def
        toPitchBend_trunc_def clamp_def py_int_def pivot_x_def)

text \<open>
  C4 as stated asks for rounding to the nearest integer. A particle at \<open>x = 2\<close> has
  \<open>2 / 400 \<times> 127 = 0.635\<close>: the code sends 0, the rounding mapping gives 1.
\<close>

theorem C4_rounding_counterexample:
  "send_particle_midi \<lparr>p_x = 2, p_y = 2, p_vx = 0, p_vy = 0, p_radius = 15,
        p_color = (255, 100, 100), p_cc_x = 74, p_cc_y = 75\<rparr> = [Send_cc 74 0, Send_cc 75 0]
   \<and> toControlValue 2 0 sim_width = 1"
  by (simp add: send_particle_midi_def toControlValue_def clamp_def py_int_def round_def
        sim_width_def sim_height_def Let_def)


section \<open>The pendulum module: one tick\<close>

lemma update_physics_fields:
  assumes "length_p s \<noteq> 0"
  shows "\<exists>s'. update_physics s = Inr s'
     \<and> angular_velocity s'
         = (angular_velocity s + (- (gravity / length_p s) * sin (angle s) * 0.1)) * damping
     \<and> angle s' = angle s + angular_velocity s'
     \<and> length_p s' = length_p s
     \<and> current_mode s' = current_mode s
     \<and> cc_number s' = cc_number s
     \<and> dragging_pendulum s' = dragging_pendulum s"
  using assms by (simp add: update_physics_def Let_def)

lemma generate_midi_output_trail:
  "generate_midi_output (s\<lparr>trail_points := tp\<rparr>) = generate_midi_output s"
  by (simp add: generate_midi_output_def calculate_pendulum_position_def)

lemma generate_midi_output_total:
  assumes "length_p s \<noteq> 0"
  shows "\<exists>calls. generate_midi_output s = Inr calls"
  using assms by (simp add: generate_midi_output_def Let_def split: prod.split)

lemma generate_midi_output_derived:
  assumes "length_p s \<noteq> 0"
  shows "generate_midi_output s =
     Inr (let bob_x = fst (calculate_pendulum_position s); L = length_p s
          in if current_mode s = 0
             then [Send_cc (cc_number s)
                     (of_int (max 0 (min 127 (py_int ((bob_x - (pivot_x - L)) / (L * 2) * 127)))))]
             else if current_mode s = 1
             then [Send_pitch_bend (max (- 8192) (min 8191 (py_int ((bob_x - pivot_x) / L * 8192))))]
             else [])"
  using assms by (simp add: generate_midi_output_def Let_def split: prod.split)

text \<open>
  C7. In a tick in which the bob is not held (and the arm length is not zero, so that
  the quotient \<open>gravity / length\<close> exists), \<^verbatim>\<open>PendulumModule.update\<close> ends without an error
  and the new state has \<open>angularVelocity' = (angularVelocity + a) \<times> 0.999\<close> with
  \<open>a = - (gravity / length) \<times> sin(angle) \<times> 0.1\<close>, \<open>angle' = angle + angularVelocity'\<close> and the
  same length, output mode and controller number. The bob position is the pair
  \<open>(pivot_x + L \<times> sin(angle), pivot_y + L \<times> cos(angle))\<close> computed from the state. The
  messages of the tick are computed from the x of that derived position of the new state:
  in control-value mode one control change with
  \<open>clamp(int((bob_x - (pivot_x - L)) / (2 \<times> L) \<times> 127), 0, 127)\<close>, in pitch-bend mode one bend
  message with \<open>clamp(int((bob_x - pivot_x) / L \<times> 8192), -8192, 8191)\<close>. They are
  \<^verbatim>\<open>generate_midi_output\<close> of the new state and do not depend on the positions kept in the
  trail.
\<close>

theorem C7_pendulum_tick:
  assumes "\<not> dragging_pendulum s" and "length_p s \<noteq> 0"
  shows "\<exists>s' calls. pendulum_update s = Inr (s', calls)
     \<and> angular_velocity s'
         = (angular_velocity s + (- (gravity / length_p s) * sin (angle s) * 0.1)) * 0.999
     \<and> angle s' = angle s + angular_velocity s'
     \<and> length_p s' = length_p s
     \<and> calculate_pendulum_position s'
         = (pivot_x + length_p s' * sin (angle s'), pivot_y + length_p s' * cos (angle s'))
     \<and> generate_midi_output s' = Inr calls
     \<and> (\<forall>tp. generate_midi_output (s'\<lparr>trail_points := tp\<rparr>) = Inr calls)
     \<and> current_mode s' = current_mode s
     \<and> cc_number s' = cc_number s
     \<and> calls =
         (let bob_x = fst (calculate_pendulum_position s'); L = length_p s'
          in if current_mode s' = 0
             then [Send_cc (cc_number s')
                     (of_int (max 0 (min 127 (py_int ((bob_x - (pivot_x - L)) / (L * 2) * 127)))))]
             else if current_mode s' = 1
             then [Send_pitch_bend (max (- 8192) (min 8191 (py_int ((bob_x - pivot_x) / L * 8192))))]
             else [])"
proof -
  from update_physics_fields[OF assms(2)] obtain s' where s':
      "update_physics s = Inr s'"
      "angular_velocity s'
         = (angular_velocity s + (- (gravity / length_p s) * sin (angle s) * 0.1)) * damping"
      "angle s' = angle s + angular_velocity s'"
      "length_p s' = length_p s"
      "current_mode s' = current_mode s"
      "cc_number s' = cc_number s"
    by blast
  have len: "length_p s' \<noteq> 0"
    using assms(2) s'(4) by simp
  define calls where "calls =
         (let bob_x = fst (calculate_pendulum_position s'); L = length_p s'
          in if current_mode s' = 0
             then [Send_cc (cc_number s')
                     (of_int (max 0 (min 127 (py_int ((bob_x - (pivot_x - L)) / (L * 2) * 127)))))]
             else if current_mode s' = 1
             then [Send_pitch_bend (max (- 8192) (min 8191 (py_int ((bob_x - pivot_x) / L * 8192))))]
             else [])"
  have calls: "generate_midi_output s' = Inr calls"
    unfolding calls_def by (rule generate_midi_output_derived[OF len])
  have upd: "pendulum_update s = Inr (s', calls)"
    using assms(1) s'(1) calls by (simp add: pendulum_update_def)
  have vel: "angular_velocity s'
         = (angular_velocity s + (- (gravity / length_p s) * sin (angle s) * 0.1)) * 0.999"
    using s'(2) by (simp add: damping_def)
  have pos: "calculate_pendulum_position s'
         = (pivot_x + length_p s' * sin (angle s'), pivot_y + length_p s' * cos (angle s'))"
    by (simp add: calculate_pendulum_position_def)
  have trail: "\<forall>tp. generate_midi_output (s'\<lparr>trail_points := tp\<rparr>) = Inr calls"
    using calls by (simp add: generate_midi_output_trail)
  show ?thesis
    apply (rule exI[of _ s'])
    apply (rule exI[of _ calls])
    apply (intro conjI)
             apply (rule upd)
            apply (rule vel)
           apply (rule s'(3))
          apply (rule s'(4))
         apply (rule pos)
        apply (rule calls)
       apply (rule trail)
      apply (rule s'(5))
     apply (rule s'(6))
    apply (rule calls_def)
    done
qed

theorem C7_pendulum_tick_witness:
  "(\<exists>s' calls. pendulum_update pendulum_init = Inr (s', calls)
     \<and> angular_velocity s' = - (999 / 4000000) * (sqrt 2 / 2)
     \<and> angle s' = pi / 4 - (999 / 4000000) * (sqrt 2 / 2)
     \<and> length_p s' = 200)
   \<and> (\<exists>s'. pendulum_update (pendulum_init\<lparr>angle := 0\<rparr>) = Inr (s', [Send_cc 74 63])
     \<and> angular_velocity s' = 0 \<and> angle s' = 0)
   \<and> (\<exists>s'. pendulum_update (pendulum_init\<lparr>angle := 0, current_mode := 1\<rparr>)
              = Inr (s', [Send_pitch_bend 0])
     \<and> angular_velocity s' = 0 \<and> angle s' = 0)"
proof (intro conjI)
  have "\<not> dragging_pendulum pendulum_init" and "length_p pendulum_init \<noteq> 0"
    by (simp_all add: pendulum_init_def)
  from C7_pendulum_tick[OF this] obtain s' calls where
      "pendulum_update pendulum_init = Inr (s', calls)"
      "angular_velocity s'
         = (angular_velocity pendulum_init
            + (- (gravity / length_p pendulum_init) * sin (angle pendulum_init) * 0.1)) * 0.999"
      "angle s' = angle pendulum_init + angular_velocity s'"
      "length_p s' = length_p pendulum_init"
    by blast
  then show "\<exists>s' calls. pendulum_update pendulum_init = Inr (s', calls)
     \<and> angular_velocity s' = - (999 / 4000000) * (sqrt 2 / 2)
     \<and> angle s' = pi / 4 - (999 / 4000000) * (sqrt 2 / 2)
     \<and> length_p s' = 200"
    by (intro exI[of _ s'] exI[of _ calls]) (simp add: pendulum_init_def gravity_def sin_45)
next
  define s0 where "s0 = pendulum_init\<lparr>angle := 0\<rparr>"
  have "\<not> dragging_pendulum s0" and "length_p s0 \<noteq> 0"
    by (simp_all add: s0_def pendulum_init_def)
  from C7_pendulum_tick[OF this] obtain s' calls where r:
      "pendulum_update s0 = Inr (s', calls)"
      "angular_velocity s'
         = (angular_velocity s0 + (- (gravity / length_p s0) * sin (angle s0) * 0.1)) * 0.999"
      "angle s' = angle s0 + angular_velocity s'"
      "length_p s' = length_p s0"
      "calculate_pendulum_position s'
         = (pivot_x + length_p s' * sin (angle s'), pivot_y + length_p s' * cos (angle s'))"
      "current_mode s' = current_mode s0"
      "cc_number s' = cc_number s0"
      "calls =
         (let bob_x = fst (calculate_pendulum_position s'); L = length_p s'
          in if current_mode s' = 0
             then [Send_cc (cc_number s')
                     (of_int (max 0 (min 127 (py_int ((bob_x - (pivot_x - L)) / (L * 2) * 127)))))]
             else if current_mode s' = 1
             then [Send_pitch_bend (max (- 8192) (min 8191 (py_int ((bob_x - pivot_x) / L * 8192))))]
             else [])"
    by blast
  have v: "angular_velocity s' = 0" and a: "angle s' = 0"
    using r(2,3) by (simp_all add: s0_def pendulum_init_def)
  have "calls = [Send_cc 74 63]"
    unfolding r(8) r(5) r(4) r(6) r(7) a
    by (simp add: s0_def pendulum_init_def pivot_x_def py_int_def)
  with r(1) v a show "\<exists>s'. pendulum_update (pendulum_init\<lparr>angle := 0\<rparr>) = Inr (s', [Send_cc 74 63])
     \<and> angular_velocity s' = 0 \<and> angle s' = 0"
    unfolding s0_def by blast
next
  define s0 where "s0 = pendulum_init\<lparr>angle := 0, current_mode := 1\<rparr>"
  have "\<not> dragging_pendulum s0" and "length_p s0 \<noteq> 0"
    by (simp_all add: s0_def pendulum_init_def)
  from C7_pendulum_tick[OF this] obtain s' calls where r:
      "pendulum_update s0 = Inr (s', calls)"
      "angular_velocity s'
         = (angular_velocity s0 + (- (gravity / length_p s0) * sin (angle s0) * 0.1)) * 0.999"
      "angle s' = angle s0 + angular_velocity s'"
      "length_p s' = length_p s0"
      "calculate_pendulum_position s'
         = (pivot_x + length_p s' * sin (angle s'), pivot_y + length_p s' * cos (angle s'))"
      "current_mode s' = current_mode s0"
      "cc_number s' = cc_number s0"
      "calls =
         (let bob_x = fst (calculate_pendulum_position s'); L = length_p s'
          in if current_mode s' = 0
             then [Send_cc (cc_number s')
                     (of_int (max 0 (min 127 (py_int ((bob_x - (pivot_x - L)) / (L * 2) * 127)))))]
             else if current_mode s' = 1
             then [Send_pitch_bend (max (- 8192) (min 8191 (py_int ((bob_x - pivot_x) / L * 8192))))]
             else [])"
    by blast
  have v: "angular_velocity s' = 0" and a: "angle s' = 0"
    using r(2,3) by (simp_all add: s0_def pendulum_init_def)
  have "calls = [Send_pitch_bend 0]"
    unfolding r(8) r(5) r(4) r(6) r(7) a
    by (simp add: s0_def pendulum_init_def pivot_x_def py_int_def)
  with r(1) v a show "\<exists>s'. pendulum_update (pendulum_init\<lparr>angle := 0, current_mode := 1\<rparr>)
              = Inr (s', [Send_pitch_bend 0])
     \<and> angular_velocity s' = 0 \<and> angle s' = 0"
    unfolding s0_def by blast
qed

lemma pendulum_held_not_integrated:
  assumes "dragging_pendulum s" and "length_p s \<noteq> 0"
  shows "\<exists>calls. pendulum_update s = Inr (s, calls)"
  using assms generate_midi_output_total[OF assms(2)]
  by (auto simp: pendulum_update_def)

lemma pendulum_press_zeroes_velocity:
  assumes "pendulum_handle_mouse_events s (MOUSEBUTTONDOWN 1) pos = s'"
      and "\<not> dragging_pendulum s" and "dragging_pendulum s'"
  shows "angular_velocity s' = 0 \<and> angle s' = angle s"
  using assms
  by (auto simp: pendulum_handle_mouse_events_def calculate_pendulum_position_def Let_def
           split: prod.splits if_splits)



section \<open>The gravity module: dragging a slider\<close>


























lemma press_example:
  "gravity_handle_mouse_events gravity_init (MOUSEBUTTONDOWN 1) (120, 400)
     = Inr (grabbed_example, [])"
  by (simp add: gravity_handle_mouse_events_def gravity_init_def grabbed_example_def
        collidepoint_def Let_def controller_start_x_def controller_spacing_def controller_y_def
        controller_width_def controller_height_def gravity_slider_x_def)

lemma drag_example:
  "gravity_handle_mouse_events grabbed_example MOUSEMOTION (120, 210)
     = Inr (held_example, [Send_cc 74 127])"
  by (simp add: gravity_handle_mouse_events_def gravity_init_def grabbed_example_def
        held_example_def Let_def controller_y_def controller_height_def)

lemma tick_example:
  "gravity_update held_example = (falling_example, [Send_cc 74 (1257652 / 10000)])"
  by (simp add: gravity_update_def update_controller_def get_gravity_force_def
        held_example_def grabbed_example_def gravity_init_def falling_example_def Let_def)

lemma release_example:
  "gravity_handle_mouse_events falling_example (MOUSEBUTTONUP 1) (120, 210)
     = Inr (falling_example\<lparr>dragging_controller := None\<rparr>, [])"
  by (simp add: gravity_handle_mouse_events_def falling_example_def held_example_def
        grabbed_example_def gravity_init_def)

lemma press_again_example:
  "gravity_handle_mouse_events (falling_example\<lparr>dragging_controller := None\<rparr>)
       (MOUSEBUTTONDOWN 1) (120, 400)
     = Inr (falling_example\<lparr>mouse_offset := - 100 + 1257652 / 10000 / 127 * 300\<rparr>, [])"
  by (simp add: gravity_handle_mouse_events_def falling_example_def held_example_def
        grabbed_example_def gravity_init_def
        collidepoint_def Let_def controller_start_x_def controller_spacing_def controller_y_def
        controller_width_def controller_height_def gravity_slider_x_def)

text \<open>
  C1 fails in the gravity module. From the initial state, pressing the first slider at
  \<open>(120, 400)\<close> and dragging it to \<open>(120, 210)\<close> holds the first channel at value 127. The
  next tick, with the button still down, moves the held channel to 125.7652: the loop of
  \<^verbatim>\<open>GravityModule.update\<close> does not look at \<^verbatim>\<open>dragging_controller\<close>. After a release, a
  new press on the slider leaves the velocity at -1.2348: the press does not zero it,
  only a motion event does. The pendulum does both (lemmas
  \<open>pendulum_held_not_integrated\<close> and \<open>pendulum_press_zeroes_velocity\<close>).
\<close>

theorem C1_held_controller_is_integrated:
  "gravity_handle_mouse_events gravity_init (MOUSEBUTTONDOWN 1) (120, 400)
     = Inr (grabbed_example, [])
   \<and> gravity_handle_mouse_events grabbed_example MOUSEMOTION (120, 210)
     = Inr (held_example, [Send_cc 74 127])
   \<and> dragging_controller held_example = Some 0
   \<and> val (controllers held_example ! 0) = 127
   \<and> gravity_update held_example = (falling_example, [Send_cc 74 (1257652 / 10000)])
   \<and> dragging_controller falling_example = Some 0
   \<and> val (controllers falling_example ! 0) = 1257652 / 10000
   \<and> gravity_handle_mouse_events falling_example (MOUSEBUTTONUP 1) (120, 210)
     = Inr (falling_example\<lparr>dragging_controller := None\<rparr>, [])
   \<and> gravity_handle_mouse_events (falling_example\<lparr>dragging_controller := None\<rparr>)
       (MOUSEBUTTONDOWN 1) (120, 400)
     = Inr (falling_example\<lparr>mouse_offset := - 100 + 1257652 / 10000 / 127 * 300\<rparr>, [])
   \<and> velocity (controllers (falling_example\<lparr>mouse_offset := - 100 + 1257652 / 10000 / 127 * 300\<rparr>) ! 0)
     = - 12348 / 10000"
  using press_example drag_example tick_example release_example press_again_example
  by (simp add: held_example_def falling_example_def grabbed_example_def)


section \<open>The gravity module: return to the centre\<close>

lemma energy_step:
  "energy (d + (v + - d * 0.8 * 0.1) * 0.98) ((v + - d * 0.8 * 0.1) * 0.98) = 0.98 * energy d v"
proof -
  have w: "(v + - d * 0.8 * 0.1) * 0.98 = (49 / 50) * v - (49 / 625) * d"
    by (simp add: field_simps)
  have "energy (d + ((49 / 50) * v - (49 / 625) * d)) ((49 / 50) * v - (49 / 625) * d)
          = (49 / 50) * energy d v"
    unfolding energy_def power2_eq_square by (simp add: field_simps)
  then show ?thesis
    by (simp only: w) simp
qed

lemma energy_bound: "775 * d\<^sup>2 \<le> energy d v"
proof -
  have "energy d v - 775 * d\<^sup>2 = (3 * d - (292 / 3) * v)\<^sup>2 + (2936 / 9) * v\<^sup>2"
    unfolding energy_def power2_eq_square by (simp add: field_simps)
  moreover have "0 \<le> (3 * d - (292 / 3) * v)\<^sup>2 + (2936 / 9) * v\<^sup>2"
    by simp
  ultimately show ?thesis by linarith
qed

lemma energy_nonneg: "0 \<le> energy d v"
  using energy_bound[of d v] zero_le_power2[of d] by linarith

lemma energy_zero: "energy 0 0 = 0"
  by (simp add: energy_def)

lemma small_energy_small_distance:
  assumes "energy d v \<le> e" and "e < 775 * b\<^sup>2" and "0 \<le> b"
  shows "\<bar>d\<bar> < b"
proof -
  have "775 * d\<^sup>2 < 775 * b\<^sup>2"
    using energy_bound[of d v] assms(1,2) by linarith
  then have "d\<^sup>2 < b\<^sup>2" by simp
  then show ?thesis
    using assms(3) by (metis power2_abs power2_less_imp_less)
qed

lemma tick_in_deadzone:
  assumes "\<bar>val c - 64\<bar> \<le> 0.1"
  shows "gravity_tick 1 c = c\<lparr>val := 64, velocity := 0\<rparr>"
  using assms by (simp add: gravity_tick_def update_controller_def get_gravity_force_def Let_def)

lemma tick_outside_deadzone:
  assumes out: "\<bar>val c - 64\<bar> > 0.1" and e: "channel_energy c \<le> 3111696"
  shows "velocity (gravity_tick 1 c) = (velocity c + - (val c - 64) * 0.8 * 0.1) * 0.98"
    and "val (gravity_tick 1 c) - 64
           = (val c - 64) + (velocity c + - (val c - 64) * 0.8 * 0.1) * 0.98"
proof -
  define d where "d = val c - 64"
  define w where "w = (velocity c + - d * 0.8 * 0.1) * 0.98"
  have "energy (d + w) w = 0.98 * energy d (velocity c)"
    unfolding w_def by (rule energy_step)
  also have "\<dots> \<le> 0.98 * 3111696"
    using e by (simp add: channel_energy_def d_def)
  finally have "energy (d + w) w \<le> 0.98 * 3111696" .
  moreover have "(0.98::real) * 3111696 < 775 * 63\<^sup>2" by simp
  ultimately have "\<bar>d + w\<bar> < 63"
    by (rule small_energy_small_distance) simp
  then have inside: "0 \<le> val c + w" "val c + w \<le> 127"
    unfolding d_def by linarith+
  have "gravity_tick 1 c = c\<lparr>velocity := w, val := max 0 (min 127 (val c + w))\<rparr>"
    using out by (simp add: gravity_tick_def update_controller_def get_gravity_force_def
                    Let_def w_def d_def)
  also have "max 0 (min 127 (val c + w)) = val c + w"
    using inside by simp
  finally have tick: "gravity_tick 1 c = c\<lparr>velocity := w, val := val c + w\<rparr>" .
  show "velocity (gravity_tick 1 c) = (velocity c + - (val c - 64) * 0.8 * 0.1) * 0.98"
    unfolding tick by (simp add: w_def d_def)
  show "val (gravity_tick 1 c) - 64
           = (val c - 64) + (velocity c + - (val c - 64) * 0.8 * 0.1) * 0.98"
    unfolding tick by (simp add: w_def d_def)
qed

lemma tick_energy:
  assumes "channel_energy c \<le> 3111696"
  shows "channel_energy (gravity_tick 1 c) \<le> 0.98 * channel_energy c"
proof (cases "\<bar>val c - 64\<bar> > 0.1")
  case True
  from tick_outside_deadzone[OF True assms]
  have "channel_energy (gravity_tick 1 c) = 0.98 * channel_energy c"
    unfolding channel_energy_def by (simp only: energy_step)
  then show ?thesis by simp
next
  case False
  then have "gravity_tick 1 c = c\<lparr>val := 64, velocity := 0\<rparr>"
    by (simp add: tick_in_deadzone)
  then have "channel_energy (gravity_tick 1 c) = 0"
    by (simp add: channel_energy_def energy_zero)
  then show ?thesis
    using energy_nonneg[of "val c - 64" "velocity c"] by (simp add: channel_energy_def)
qed

lemma energy_decay:
  assumes "channel_energy c \<le> 3111696"
  shows "channel_energy ((gravity_tick 1 ^^ n) c) \<le> 0.98 ^ n * 3111696"
proof (induction n)
  case 0
  with assms show ?case by simp
next
  case (Suc n)
  have "(0.98::real) ^ n \<le> 1"
    by (rule power_le_one) simp_all
  then have "(0.98::real) ^ n * 3111696 \<le> 3111696" by simp
  with Suc have "channel_energy ((gravity_tick 1 ^^ n) c) \<le> 3111696" by linarith
  from tick_energy[OF this] Suc show ?case by simp
qed

lemma reaches_deadzone:
  assumes "channel_energy c \<le> 3111696"
  shows "\<exists>n. \<bar>val ((gravity_tick 1 ^^ n) c) - 64\<bar> \<le> 0.1"
proof -
  have "\<exists>n. (0.98::real) ^ n < 775 * 0.1\<^sup>2 / 3111696"
    by (rule real_arch_pow_inv) simp_all
  then obtain n where "(0.98::real) ^ n < 775 * 0.1\<^sup>2 / 3111696" ..
  then have small: "(0.98::real) ^ n * 3111696 < 775 * 0.1\<^sup>2"
    by (simp add: field_simps)
  have "energy (val ((gravity_tick 1 ^^ n) c) - 64) (velocity ((gravity_tick 1 ^^ n) c))
          \<le> 0.98 ^ n * 3111696"
    using energy_decay[OF assms, of n] by (simp add: channel_energy_def)
  from small_energy_small_distance[OF this small]
  have "\<bar>val ((gravity_tick 1 ^^ n) c) - 64\<bar> < 0.1" by simp
  then show ?thesis
    by (intro exI[of _ n]) simp
qed

lemma stays_at_center:
  assumes "\<bar>val ((gravity_tick 1 ^^ n) c) - 64\<bar> \<le> 0.1"
  shows "val ((gravity_tick 1 ^^ (Suc n + k)) c) = 64
       \<and> velocity ((gravity_tick 1 ^^ (Suc n + k)) c) = 0"
proof (induction k)
  case 0
  from tick_in_deadzone[OF assms] show ?case by simp
next
  case (Suc k)
  then have "\<bar>val ((gravity_tick 1 ^^ (Suc n + k)) c) - 64\<bar> \<le> 0.1" by simp
  from tick_in_deadzone[OF this] show ?case by simp
qed

text \<open>
  C9. At gravity strength 1, a channel that starts with value 127 and velocity 0 is,
  after some finite number \<open>n\<close> of ticks, inside the deadzone \<open>\<bar>value - 64\<bar> \<le> 0.1\<close>; at every
  later tick its value is exactly 64 and its velocity 0, so from tick \<open>n\<close> on the value
  stays within 0.1 of 64.
\<close>

theorem C9_reaches_center_and_stays:
  assumes "val c = 127" and "velocity c = 0"
  shows "\<exists>n. \<bar>val ((gravity_tick 1 ^^ n) c) - 64\<bar> \<le> 0.1
           \<and> (\<forall>m>n. val ((gravity_tick 1 ^^ m) c) = 64 \<and> velocity ((gravity_tick 1 ^^ m) c) = 0)
           \<and> (\<forall>m\<ge>n. \<bar>val ((gravity_tick 1 ^^ m) c) - 64\<bar> \<le> 0.1)"
proof -
  have "channel_energy c \<le> 3111696"
    using assms by (simp add: channel_energy_def energy_def)
  from reaches_deadzone[OF this] obtain n
    where n: "\<bar>val ((gravity_tick 1 ^^ n) c) - 64\<bar> \<le> 0.1" ..
  have later: "val ((gravity_tick 1 ^^ m) c) = 64 \<and> velocity ((gravity_tick 1 ^^ m) c) = 0"
    if "m > n" for m
  proof -
    from that obtain k where "m = Suc n + k"
      by (metis Suc_leI le_Suc_ex)
    with stays_at_center[OF n, of k] show ?thesis by simp
  qed
  have "\<bar>val ((gravity_tick 1 ^^ m) c) - 64\<bar> \<le> 0.1" if "m \<ge> n" for m
  proof (cases "m = n")
    case True
    with n show ?thesis by simp
  next
    case False
    with that have "m > n" by simp
    from later[OF this] show ?thesis by simp
  qed
  with n later show ?thesis by blast
qed

theorem C9_reaches_center_and_stays_witness:
  "\<exists>n. \<bar>val ((gravity_tick 1 ^^ n) \<lparr>cc = 74, val = 127, velocity = 0, name = ''Controller 1''\<rparr>) - 64\<bar> \<le> 0.1
      \<and> (\<forall>m>n. val ((gravity_tick 1 ^^ m) \<lparr>cc = 74, val = 127, velocity = 0, name = ''Controller 1''\<rparr>) = 64)"
proof -
  have "val \<lparr>cc = 74, val = 127, velocity = 0, name = ''Controller 1''\<rparr> = 127"
   and "velocity \<lparr>cc = 74, val = 127, velocity = 0, name = ''Controller 1''\<rparr> = 0"
    by simp_all
  from C9_reaches_center_and_stays[OF this] show ?thesis by blast
qed

lemma gravity_update_controllers:
  "controllers (((\<lambda>m. fst (gravity_update m)) ^^ n) m)
     = map (gravity_tick (gravity_strength m) ^^ n) (controllers m)
   \<and> gravity_strength (((\<lambda>m. fst (gravity_update m)) ^^ n) m) = gravity_strength m"
proof (induction n)
  case 0
  show ?case by simp
next
  case (Suc n)
  then show ?case
    by (simp add: gravity_update_def Let_def gravity_tick_def comp_def)
qed


end
